theory Spec2Isabelle
  imports Complex_Main "HOL-Library.Sublist"
begin

section \<open>JavaScript values read by the application\<close>

text \<open>
  The application (\<^verbatim>\<open>src/App.js\<close>) is one React component. Its logic reads JSON
  values that come back from the network, so the values of the language are modelled
  first: what \<^verbatim>\<open>JSON.parse\<close> can produce, together with \<^verbatim>\<open>undefined\<close>, which a read
  of an absent property yields. A finite number is the rational it denotes (every finite
  double is one; the two zeros behave alike in everything the component does).
\<close>

datatype number = NaN | PosInfinity | NegInfinity | Finite rat

datatype js =
    JUndefined
  | JNull
  | JBool bool
  | JNum number
  | JStr string
  | JArr "js list"
  | JObj "(string \<times> js) list"

text \<open>
  What a \<^verbatim>\<open>catch\<close> clause can receive here: a \<^verbatim>\<open>TypeError\<close> raised by the engine (a property
  read on \<^verbatim>\<open>null\<close> or \<^verbatim>\<open>undefined\<close>, an object without a primitive value), the \<^verbatim>\<open>Error\<close>
  the component constructs itself, or the error a rejected promise of \<^verbatim>\<open>fetch\<close> or
  \<^verbatim>\<open>response.json()\<close> carries, with its message.
\<close>

datatype type_error = ReadOfNullish js string | NoPrimitiveValue

datatype thrown = TypeError type_error | Error string | Rejection string

text \<open>
  The parts of the engine whose results are fixed by the platform and not by this
  program are parameters: the rendering of a number as text, the reading of text as a
  number, and the message text of an engine-raised \<^verbatim>\<open>TypeError\<close>.
\<close>

record platform =
  NumberToString :: "number \<Rightarrow> string"
  StringToNumber :: "string \<Rightarrow> number"
  typeErrorMessage :: "type_error \<Rightarrow> string"

definition and_then :: "thrown + 'a \<Rightarrow> ('a \<Rightarrow> thrown + 'b) \<Rightarrow> thrown + 'b" where
  "and_then r f = (case r of Inl e \<Rightarrow> Inl e | Inr v \<Rightarrow> f v)"

fun message_of :: "platform \<Rightarrow> thrown \<Rightarrow> string" where
  "message_of pf (TypeError t) = typeErrorMessage pf t"
| "message_of pf (Error m) = m"
| "message_of pf (Rejection m) = m"

text \<open>Truthiness, as \<^verbatim>\<open>&&\<close>, \<^verbatim>\<open>||\<close>, \<^verbatim>\<open>?:\<close> and \<^verbatim>\<open>if\<close> test it.\<close>

fun number_truthy :: "number \<Rightarrow> bool" where
  "number_truthy NaN = False"
| "number_truthy PosInfinity = True"
| "number_truthy NegInfinity = True"
| "number_truthy (Finite r) = (r \<noteq> 0)"

fun truthy :: "js \<Rightarrow> bool" where
  "truthy JUndefined = False"
| "truthy JNull = False"
| "truthy (JBool b) = b"
| "truthy (JNum n) = number_truthy n"
| "truthy (JStr s) = (s \<noteq> [])"
| "truthy (JArr xs) = True"
| "truthy (JObj ps) = True"

text \<open>
  A property read \<^verbatim>\<open>v.k\<close> or \<^verbatim>\<open>v[0]\<close> (the key \<^verbatim>\<open>0\<close>). The component reads the keys
  \<^verbatim>\<open>candidates\<close>, \<^verbatim>\<open>content\<close>, \<^verbatim>\<open>parts\<close>, \<^verbatim>\<open>text\<close>, \<^verbatim>\<open>error\<close>, \<^verbatim>\<open>message\<close>, \<^verbatim>\<open>length\<close> and
  \<^verbatim>\<open>0\<close>; no prototype supplies any of them, so only own properties answer. An object
  holds its own properties as an association list.
\<close>

fun get_prop :: "js \<Rightarrow> string \<Rightarrow> thrown + js" where
  "get_prop JUndefined k = Inl (TypeError (ReadOfNullish JUndefined k))"
| "get_prop JNull k = Inl (TypeError (ReadOfNullish JNull k))"
| "get_prop (JBool b) k = Inr JUndefined"
| "get_prop (JNum n) k = Inr JUndefined"
| "get_prop (JStr s) k =
     Inr (if k = ''length'' then JNum (Finite (of_nat (length s)))
          else if k = ''0'' then (case s of [] \<Rightarrow> JUndefined | c # _ \<Rightarrow> JStr [c])
          else JUndefined)"
| "get_prop (JArr xs) k =
     Inr (if k = ''length'' then JNum (Finite (of_nat (length xs)))
          else if k = ''0'' then (case xs of [] \<Rightarrow> JUndefined | x # _ \<Rightarrow> x)
          else JUndefined)"
| "get_prop (JObj ps) k = Inr (case map_of ps k of None \<Rightarrow> JUndefined | Some v \<Rightarrow> v)"

text \<open>Optional chaining \<^verbatim>\<open>v?.k\<close>: \<^verbatim>\<open>undefined\<close> when \<^verbatim>\<open>v\<close> is \<^verbatim>\<open>null\<close> or \<^verbatim>\<open>undefined\<close>.\<close>

definition opt_chain :: "js \<Rightarrow> string \<Rightarrow> thrown + js" where
  "opt_chain v k = (if v = JUndefined \<or> v = JNull then Inr JUndefined else get_prop v k)"

text \<open>
  Conversion to text, as a template literal does it. An array joins its elements with
  commas (\<^verbatim>\<open>null\<close> and \<^verbatim>\<open>undefined\<close> elements as the empty text); a plain object gives
  \<^verbatim>\<open>[object Object]\<close>, unless an own property \<^verbatim>\<open>toString\<close> (never callable in parsed
  JSON) hides the inherited method, and then the conversion raises a \<^verbatim>\<open>TypeError\<close>.
\<close>

fun ToString :: "platform \<Rightarrow> js \<Rightarrow> thrown + string"
  and join_elements :: "platform \<Rightarrow> js list \<Rightarrow> thrown + string" where
  "ToString pf JUndefined = Inr ''undefined''"
| "ToString pf JNull = Inr ''null''"
| "ToString pf (JBool b) = Inr (if b then ''true'' else ''false'')"
| "ToString pf (JNum n) = Inr (NumberToString pf n)"
| "ToString pf (JStr s) = Inr s"
| "ToString pf (JArr xs) = join_elements pf xs"
| "ToString pf (JObj ps) =
     (if map_of ps ''toString'' \<noteq> None then Inl (TypeError NoPrimitiveValue)
      else Inr ''[object Object]'')"
| "join_elements pf [] = Inr []"
| "join_elements pf (x # xs) =
     (case (if x = JNull \<or> x = JUndefined then Inr [] else ToString pf x) of
        Inl e \<Rightarrow> Inl e
      | Inr s \<Rightarrow>
          (if xs = [] then Inr s
           else (case join_elements pf xs of Inl e \<Rightarrow> Inl e | Inr t \<Rightarrow> Inr (s @ '','' @ t))))"

text \<open>Conversion to a number, and the comparison \<^verbatim>\<open>v > 0\<close> built on it.\<close>

fun ToNumber :: "platform \<Rightarrow> js \<Rightarrow> thrown + number" where
  "ToNumber pf JUndefined = Inr NaN"
| "ToNumber pf JNull = Inr (Finite 0)"
| "ToNumber pf (JBool b) = Inr (Finite (if b then 1 else 0))"
| "ToNumber pf (JNum n) = Inr n"
| "ToNumber pf (JStr s) = Inr (StringToNumber pf s)"
| "ToNumber pf (JArr xs) = and_then (ToString pf (JArr xs)) (\<lambda>s. Inr (StringToNumber pf s))"
| "ToNumber pf (JObj ps) = and_then (ToString pf (JObj ps)) (\<lambda>s. Inr (StringToNumber pf s))"

fun number_positive :: "number \<Rightarrow> bool" where
  "number_positive NaN = False"
| "number_positive PosInfinity = True"
| "number_positive NegInfinity = False"
| "number_positive (Finite r) = (0 < r)"

definition greater_than_zero :: "platform \<Rightarrow> js \<Rightarrow> thrown + bool" where
  "greater_than_zero pf v = and_then (ToNumber pf v) (\<lambda>n. Inr (number_positive n))"

text \<open>A non-negative integer in decimal, as a template literal renders \<^verbatim>\<open>response.status\<close>.\<close>

definition digit_char :: "nat \<Rightarrow> char" where
  "digit_char d = ''0123456789'' ! d"

fun show_nat :: "nat \<Rightarrow> string" where
  "show_nat n = (if n < 10 then [digit_char n] else show_nat (n div 10) @ [digit_char (n mod 10)])"

declare show_nat.simps [simp del]

section \<open>The component's state\<close>

text \<open>
  One field per \<^verbatim>\<open>useState\<close> hook. The ten inputs hold text (every setter stores
  \<^verbatim>\<open>e.target.value\<close>). \<^verbatim>\<open>generatedPrompt\<close> holds whatever \<^verbatim>\<open>setGeneratedPrompt\<close> was
  given, which is a value read out of the response.
\<close>

record app_state =
  sceneDescription :: string
  subjectFocus :: string
  cameraMovements :: string
  visualStyle :: string
  timeOfDay :: string
  genre :: string
  lightingConditions :: string
  additionalKeywords :: string
  textToSpeech :: string
  videoFormat :: string
  generatedPrompt :: js
  isLoading :: bool
  error :: string
  copyMessage :: string
  isAuthReady :: bool

definition initial_state :: app_state where
  "initial_state =
     \<lparr>sceneDescription = [], subjectFocus = [], cameraMovements = [], visualStyle = [],
      timeOfDay = ''Day'', genre = ''Sci-fi'', lightingConditions = ''Soft'',
      additionalKeywords = [], textToSpeech = [], videoFormat = ''landscape'',
      generatedPrompt = JStr [], isLoading = False, error = [], copyMessage = [],
      isAuthReady = False\<rparr>"

section \<open>The instruction text\<close>

text \<open>\<^verbatim>\<open>x || d\<close> on text: the empty text is the only falsy one.\<close>

definition or_else :: "string \<Rightarrow> string \<Rightarrow> string" where
  "or_else x d = (if x = [] then d else x)"

text \<open>
  The template literal of \<^verbatim>\<open>generatePrompt\<close>, piece by piece, with its line breaks and
  its indentation.
\<close>

definition promptText :: "app_state \<Rightarrow> string" where
  \<open>promptText st = concat
    [''Generate a highly creative, detailed, and visually rich text prompt for an AI video generator like Veo 3. The prompt should aim for maximum video quality and artistic expression, incorporating all specified elements.\<newline>'',
     ''\<newline>'',
     ''        Here are the inputs:\<newline>'',
     ''        - Scene Description: '',
     or_else (sceneDescription st) ''A captivating and dynamic scene'',
     ''\<newline>'',
     ''        - Subject Focus: '',
     or_else (subjectFocus st) ''A central, engaging figure or object'',
     ''\<newline>'',
     ''        - Camera Movements: '',
     or_else (cameraMovements st) ''Sophisticated and fluid camera work (e.g., cinematic tracking shot, slow push-in, dynamic drone view)'',
     ''\<newline>'',
     ''        - Visual Style: '',
     or_else (visualStyle st) ''A visually stunning and coherent artistic style (e.g., hyperrealistic, fantastical, neo-noir, intricate anime)'',
     ''\<newline>'',
     ''        - Time of Day: '',
     timeOfDay st,
     ''\<newline>'',
     ''        - Genre: '',
     genre st,
     ''\<newline>'',
     ''        - Lighting Conditions: '',
     or_else (lightingConditions st) ''Artful and evocative lighting'',
     ''\<newline>'',
     ''        - Additional Keywords: '',
     or_else (additionalKeywords st) ''Incorporate rich textures, vibrant colors, atmospheric effects (e.g., volumetric fog, lens flares), detailed reflections, high fidelity, 8K, highly detailed, photorealistic render'',
     ''\<newline>'',
     ''        - Text-to-Speech: '',
     (if textToSpeech st \<noteq> []
      then ''Integrate the following dialogue naturally into the video concept: "'' @ textToSpeech st @ ''"''
      else ''No spoken dialogue specified.''),
     ''\<newline>'',
     ''        - Video Format: '',
     videoFormat st,
     ''\<newline>'',
     ''\<newline>'',
     ''        The final prompt should be a concise yet powerful single sentence or short paragraph, directly usable for a video generation model. It should focus on actionable visual and auditory elements, camera direction, and overall mood. Prioritize visual fidelity and artistic depth.\<newline>'',
     ''\<newline>'',
     ''        Example output format: "A majestic golden dragon soaring gracefully through a swirling nebula, seen from a sweeping cinematic drone shot, in a fantastical and ethereal style. Time of Day: Night, Genre: Fantasy, Lighting: Dramatic. Incorporate glowing particles and shimmering stardust, 8K. Text-to-speech: 'Witness the ancient power!' Video Format: landscape."\<newline>'',
     ''        '']\<close>

section \<open>Submitting the instruction text\<close>

text \<open>
  What \<^verbatim>\<open>fetch\<close> is called with. \<^verbatim>\<open>payload\<close> is the value handed to \<^verbatim>\<open>JSON.stringify\<close>
  for the body.
\<close>

record request =
  url :: string
  http_method :: string
  headers :: "(string \<times> string) list"
  payload :: js

text \<open>
  What the component reads of a response: \<^verbatim>\<open>ok\<close>, \<^verbatim>\<open>status\<close>, \<^verbatim>\<open>statusText\<close>, and the
  settled promise of \<^verbatim>\<open>response.json()\<close>, which is the parsed body or, when the body
  does not parse, the message of the error it rejects with. The promise of \<^verbatim>\<open>fetch\<close>
  settles likewise: a response, or the message of the error it rejects with.
\<close>

record response =
  ok :: bool
  status :: nat
  statusText :: string
  json :: "string + js"

type_synonym fetch_result = "string + response"

definition apiKey :: string where
  "apiKey = []"

definition apiUrl :: string where
  "apiUrl = ''https://generativelanguage.googleapis.com/v1beta/models/gemini-2.0-flash:generateContent?key='' @ apiKey"

text \<open>The empty \<^verbatim>\<open>chatHistory\<close> after its one \<^verbatim>\<open>push\<close>.\<close>

definition chatHistory :: "string \<Rightarrow> js list" where
  "chatHistory prompt =
     [] @ [JObj [(''role'', JStr ''user''), (''parts'', JArr [JObj [(''text'', JStr prompt)]])]]"

definition fetch_request :: "string \<Rightarrow> request" where
  "fetch_request prompt =
     \<lparr>url = apiUrl, http_method = ''POST'',
      headers = [(''Content-Type'', ''application/json'')],
      payload = JObj [(''contents'', JArr (chatHistory prompt))]\<rparr>"

text \<open>
  \<^verbatim>\<open>generatePrompt\<close> up to its first \<^verbatim>\<open>await\<close>: the three setters that clear the
  messages of the run before, then the setter of the busy flag, the instruction text from
  the fields as the handler read them, and the request given to \<^verbatim>\<open>fetch\<close>.
\<close>

definition clear_messages :: "app_state \<Rightarrow> app_state" where
  "clear_messages st =
     (let st1 = st\<lparr>generatedPrompt := JStr []\<rparr>;
          st2 = st1\<lparr>error := []\<rparr>;
          st3 = st2\<lparr>copyMessage := []\<rparr>
      in st3)"

definition generatePrompt_start :: "app_state \<Rightarrow> app_state \<times> request" where
  "generatePrompt_start st =
     (let st4 = (clear_messages st)\<lparr>isLoading := True\<rparr>
      in (st4, fetch_request (promptText st)))"

text \<open>
  The error thrown for a response that is not \<^verbatim>\<open>ok\<close>, once its body has parsed to
  \<^verbatim>\<open>errorData\<close>: the \<^verbatim>\<open>Error\<close> with the assembled message or, should the conversion of the
  server's message to text raise, what that raised.
\<close>

definition api_error :: "platform \<Rightarrow> response \<Rightarrow> js \<Rightarrow> thrown" where
  "api_error pf r errorData =
     (case and_then (opt_chain errorData ''error'') (\<lambda>e.
           and_then (opt_chain e ''message'') (\<lambda>m.
           ToString pf (if truthy m then m else JStr ''Unknown error''))) of
        Inl e \<Rightarrow> e
      | Inr s \<Rightarrow>
          Error (''API error: '' @ show_nat (status r) @ '' '' @ statusText r @ '' - '' @ s))"

text \<open>
  The condition that guards \<^verbatim>\<open>setGeneratedPrompt\<close>, with the short circuit of \<^verbatim>\<open>&&\<close>, and
  the read of \<^verbatim>\<open>result.candidates[0].content.parts[0].text\<close> behind it.
\<close>

definition has_content :: "platform \<Rightarrow> js \<Rightarrow> thrown + bool" where
  "has_content pf result =
     and_then (get_prop result ''candidates'') (\<lambda>candidates.
       if \<not> truthy candidates then Inr False
       else and_then (get_prop candidates ''length'') (\<lambda>n.
         and_then (greater_than_zero pf n) (\<lambda>some.
           if \<not> some then Inr False
           else and_then (get_prop candidates ''0'') (\<lambda>first.
             and_then (get_prop first ''content'') (\<lambda>content.
               if \<not> truthy content then Inr False
               else and_then (get_prop content ''parts'') (\<lambda>parts.
                 if \<not> truthy parts then Inr False
                 else and_then (get_prop parts ''length'') (\<lambda>k.
                   greater_than_zero pf k)))))))"

definition first_part_text :: "js \<Rightarrow> thrown + js" where
  "first_part_text result =
     and_then (get_prop result ''candidates'') (\<lambda>candidates.
       and_then (get_prop candidates ''0'') (\<lambda>first.
         and_then (get_prop first ''content'') (\<lambda>content.
           and_then (get_prop content ''parts'') (\<lambda>parts.
             and_then (get_prop parts ''0'') (\<lambda>part.
               get_prop part ''text'')))))"

text \<open>What the body of the \<^verbatim>\<open>try\<close> does after \<^verbatim>\<open>fetch\<close> has settled, unless it throws.\<close>

datatype update = SetGeneratedPrompt js | SetError string

definition try_body :: "platform \<Rightarrow> fetch_result \<Rightarrow> thrown + update" where
  "try_body pf settled =
     (case settled of
        Inl m \<Rightarrow> Inl (Rejection m)
      | Inr r \<Rightarrow>
          if \<not> ok r then
            (case json r of
               Inl m \<Rightarrow> Inl (Rejection m)
             | Inr errorData \<Rightarrow> Inl (api_error pf r errorData))
          else
            (case json r of
               Inl m \<Rightarrow> Inl (Rejection m)
             | Inr result \<Rightarrow>
                 and_then (has_content pf result) (\<lambda>valid.
                   if valid then and_then (first_part_text result) (\<lambda>t. Inr (SetGeneratedPrompt t))
                   else Inr (SetError ''Failed to generate prompt: No valid content from API.''))))"

text \<open>
  The rest of \<^verbatim>\<open>generatePrompt\<close>, from the settling of \<^verbatim>\<open>fetch\<close> on: the \<^verbatim>\<open>try\<close> body,
  the \<^verbatim>\<open>catch\<close> and the \<^verbatim>\<open>finally\<close>. Every setter call of this part runs after the last
  \<^verbatim>\<open>await\<close>, so the part is one step on the state.
\<close>

definition generatePrompt_settle :: "platform \<Rightarrow> fetch_result \<Rightarrow> app_state \<Rightarrow> app_state" where
  "generatePrompt_settle pf settled st =
     (let st1 = (case try_body pf settled of
                   Inr (SetGeneratedPrompt t) \<Rightarrow> st\<lparr>generatedPrompt := t\<rparr>
                 | Inr (SetError m) \<Rightarrow> st\<lparr>error := m\<rparr>
                 | Inl err \<Rightarrow> st\<lparr>error := ''Error generating prompt: '' @ message_of pf err\<rparr>)
      in st1\<lparr>isLoading := False\<rparr>)"

text \<open>
  One whole run of \<^verbatim>\<open>generatePrompt\<close> against a network that answers each request:
  the state it leaves and the requests it issued.
\<close>

definition generatePrompt :: "platform \<Rightarrow> (request \<Rightarrow> fetch_result) \<Rightarrow> app_state \<Rightarrow> app_state \<times> request list" where
  "generatePrompt pf network st =
     (let (st1, req) = generatePrompt_start st
      in (generatePrompt_settle pf (network req) st1, [req]))"

text \<open>
  A platform to evaluate examples on. Whole numbers from 0 below \<open>10\<^sup>2\<^sup>1\<close> render in decimal,
  as every engine renders them, and the messages of a \<^verbatim>\<open>TypeError\<close> are those of V8. The
  examples reach no other number and no reading of text as a number, for which fixed
  values stand in.
\<close>

definition example_platform :: platform where
  "example_platform =
     \<lparr>NumberToString = (\<lambda>n. case n of
          NaN \<Rightarrow> ''NaN'' | PosInfinity \<Rightarrow> ''Infinity'' | NegInfinity \<Rightarrow> ''-Infinity''
        | Finite r \<Rightarrow> (if r = of_int \<lfloor>r\<rfloor> \<and> 0 \<le> r \<and> r < 10 ^ 21 then show_nat (nat \<lfloor>r\<rfloor>) else ''?'')),
      StringToNumber = (\<lambda>s. if s = [] then Finite 0 else NaN),
      typeErrorMessage = (\<lambda>t. case t of
          ReadOfNullish v k \<Rightarrow>
            ''Cannot read properties of '' @ (if v = JNull then ''null'' else ''undefined'') @
            '' (reading '' @ [CHR 0x27] @ k @ [CHR 0x27] @ '')''
        | NoPrimitiveValue \<Rightarrow> ''Cannot convert object to primitive value'')\<rparr>"

text \<open>
  A field of a JSON document, as the interface description speaks of one: present when
  the value is an object that has the key.
\<close>

fun field :: "js \<Rightarrow> string \<Rightarrow> js option" where
  "field (JObj ps) k = map_of ps k"
| "field v k = None"

definition error_message_field :: "js \<Rightarrow> js option" where
  "error_message_field d = (case field d ''error'' of None \<Rightarrow> None | Some e \<Rightarrow> field e ''message'')"

section \<open>Copying the output\<close>

text \<open>
  The document as \<^verbatim>\<open>copyToClipboard\<close> touches it: the children of \<^verbatim>\<open>document.body\<close> in
  their order, and the count of nodes created so far, which names the next node.
\<close>

record element =
  node :: nat
  tagName :: string
  elem_value :: string

record document =
  body :: "element list"
  created :: nat

definition createElement :: "string \<Rightarrow> document \<Rightarrow> element \<times> document" where
  "createElement tag d =
     (\<lparr>node = created d, tagName = tag, elem_value = []\<rparr>, d\<lparr>created := Suc (created d)\<rparr>)"

text \<open>Appending a node that is in no tree yet, as the one just created is.\<close>

definition appendChild :: "element \<Rightarrow> document \<Rightarrow> document" where
  "appendChild e d = d\<lparr>body := body d @ [e]\<rparr>"

text \<open>\<^verbatim>\<open>removeChild\<close> throws when the node is not a child; otherwise the node leaves the list.\<close>

definition removeChild :: "element \<Rightarrow> document \<Rightarrow> document option" where
  "removeChild e d =
     (if list_ex (\<lambda>c. node c = node e) (body d)
      then Some (d\<lparr>body := filter (\<lambda>c. node c \<noteq> node e) (body d)\<rparr>)
      else None)"

text \<open>What \<^verbatim>\<open>document.execCommand('copy')\<close> does: it throws, or it returns a flag.\<close>

datatype exec_result = Throws | Returns bool

text \<open>The callbacks the component gives to \<^verbatim>\<open>setTimeout\<close>.\<close>

datatype timer_action = ClearCopyMessage | SetAuthReady

text \<open>
  The component with what surrounds it: its state, the document, the timers that are
  set and have not fired (delay in milliseconds, callback), and the requests given to
  \<^verbatim>\<open>fetch\<close> that have not settled.
\<close>

record world =
  ui :: app_state
  doc :: document
  timers :: "(nat \<times> timer_action) list"
  in_flight :: "request list"

text \<open>The \<^verbatim>\<open>catch\<close> clause of \<^verbatim>\<open>copyToClipboard\<close>.\<close>

definition copy_failed :: "world \<Rightarrow> world" where
  "copy_failed w = w\<lparr>ui := (ui w)\<lparr>copyMessage := ''Gagal menyalin prompt.''\<rparr>\<rparr>"

text \<open>
  \<^verbatim>\<open>copyToClipboard\<close>, statement by statement. Assigning \<^verbatim>\<open>textArea.value\<close> converts the
  output to text, which can raise; so can the copy command and \<^verbatim>\<open>removeChild\<close>. Whatever
  raises inside the \<^verbatim>\<open>try\<close> leaves the document as it is at that point.
\<close>

definition copyToClipboard :: "platform \<Rightarrow> exec_result \<Rightarrow> world \<Rightarrow> world" where
  "copyToClipboard pf exec w =
     (if \<not> truthy (generatedPrompt (ui w)) then w
      else
        let (textArea, d1) = createElement ''textarea'' (doc w) in
        case ToString pf (generatedPrompt (ui w)) of
          Inl err \<Rightarrow> copy_failed (w\<lparr>doc := d1\<rparr>)
        | Inr v \<Rightarrow>
            let textArea = textArea\<lparr>elem_value := v\<rparr>;
                d2 = appendChild textArea d1
            in (case exec of
                  Throws \<Rightarrow> copy_failed (w\<lparr>doc := d2\<rparr>)
                | Returns copied \<Rightarrow>
                    (case removeChild textArea d2 of
                       None \<Rightarrow> copy_failed (w\<lparr>doc := d2\<rparr>)
                     | Some d3 \<Rightarrow>
                         w\<lparr>doc := d3,
                           ui := (ui w)\<lparr>copyMessage := ''Prompt disalin!''\<rparr>,
                           timers := timers w @ [(3000, ClearCopyMessage)]\<rparr>)))"

section \<open>The component as a transition system\<close>

text \<open>
  An event is one run of a handler or of a callback: the \<^verbatim>\<open>onChange\<close> of one of the ten
  inputs, \<^verbatim>\<open>generatePrompt\<close> up to its \<^verbatim>\<open>await\<close>, the rest of \<^verbatim>\<open>generatePrompt\<close> when a request
  settles, \<^verbatim>\<open>copyToClipboard\<close>, the callback of a timer. A handler belongs to a render, and
  the page is rendered after the state has changed, not with it: a handler reads the
  state its render saw, and its setters write the current state. The two click events
  therefore carry what the render of their handler saw.
\<close>

datatype input_field =
    SceneDescription | SubjectFocus | CameraMovements | VisualStyle | TimeOfDay | Genre
  | LightingConditions | AdditionalKeywords | TextToSpeech | VideoFormat

fun set_field :: "input_field \<Rightarrow> string \<Rightarrow> app_state \<Rightarrow> app_state" where
  "set_field SceneDescription v st = st\<lparr>sceneDescription := v\<rparr>"
| "set_field SubjectFocus v st = st\<lparr>subjectFocus := v\<rparr>"
| "set_field CameraMovements v st = st\<lparr>cameraMovements := v\<rparr>"
| "set_field VisualStyle v st = st\<lparr>visualStyle := v\<rparr>"
| "set_field TimeOfDay v st = st\<lparr>timeOfDay := v\<rparr>"
| "set_field Genre v st = st\<lparr>genre := v\<rparr>"
| "set_field LightingConditions v st = st\<lparr>lightingConditions := v\<rparr>"
| "set_field AdditionalKeywords v st = st\<lparr>additionalKeywords := v\<rparr>"
| "set_field TextToSpeech v st = st\<lparr>textToSpeech := v\<rparr>"
| "set_field VideoFormat v st = st\<lparr>videoFormat := v\<rparr>"

datatype event =
    Edit input_field string
  | ClickGenerate app_state
  | FetchSettles nat fetch_result
  | ClickCopy js exec_result
  | TimerFires nat

fun fire :: "timer_action \<Rightarrow> world \<Rightarrow> world" where
  "fire ClearCopyMessage w = w\<lparr>ui := (ui w)\<lparr>copyMessage := []\<rparr>\<rparr>"
| "fire SetAuthReady w = w\<lparr>ui := (ui w)\<lparr>isAuthReady := True\<rparr>\<rparr>"

text \<open>
  One event. \<^verbatim>\<open>generatePrompt\<close> tests nothing before it starts: its four setters write the
  current state, and its request carries the instruction text of the fields its render
  saw. \<^verbatim>\<open>FetchSettles i\<close> settles the \<open>i\<close>-th request in flight, and \<^verbatim>\<open>TimerFires i\<close> fires
  the \<open>i\<close>-th pending timer. \<^verbatim>\<open>copyToClipboard\<close> reads the output its render saw, and writes
  the copy notification of the current state.
\<close>

fun step :: "platform \<Rightarrow> world \<Rightarrow> event \<Rightarrow> world" where
  "step pf w (Edit f v) = w\<lparr>ui := set_field f v (ui w)\<rparr>"
| "step pf w (ClickGenerate seen) =
     w\<lparr>ui := fst (generatePrompt_start (ui w)),
       in_flight := in_flight w @ [snd (generatePrompt_start seen)]\<rparr>"
| "step pf w (FetchSettles i settled) =
     (if i < length (in_flight w)
      then w\<lparr>ui := generatePrompt_settle pf settled (ui w),
             in_flight := take i (in_flight w) @ drop (Suc i) (in_flight w)\<rparr>
      else w)"
| "step pf w (ClickCopy seen exec) =
     (let w' = copyToClipboard pf exec (w\<lparr>ui := (ui w)\<lparr>generatedPrompt := seen\<rparr>\<rparr>)
      in w'\<lparr>ui := (ui w')\<lparr>generatedPrompt := generatedPrompt (ui w)\<rparr>\<rparr>)"
| "step pf w (TimerFires i) =
     (if i < length (timers w)
      then fire (snd (timers w ! i)) (w\<lparr>timers := take i (timers w) @ drop (Suc i) (timers w)\<rparr>)
      else w)"

text \<open>
  What happens to the page from outside: it is rendered anew from the current state, the
  user types into an input, presses the generate button or the copy button, a request
  settles, a timer runs out.
\<close>

datatype input =
    Rerender
  | Typing input_field string
  | PressGenerate
  | Settles nat fetch_result
  | PressCopy exec_result
  | Timeout nat

text \<open>
  The event an input leads to on the page as rendered from the state \<open>r\<close>. The generate
  button is rendered disabled while \<^verbatim>\<open>isLoading\<close> holds or \<^verbatim>\<open>isAuthReady\<close> does not, and the
  copy button is rendered only while the output is truthy: a press on a button that is
  disabled or absent reaches no handler.
\<close>

fun dispatch :: "app_state \<Rightarrow> input \<Rightarrow> event option" where
  "dispatch r Rerender = None"
| "dispatch r (Typing f v) = Some (Edit f v)"
| "dispatch r PressGenerate =
     (if isLoading r \<or> \<not> isAuthReady r then None else Some (ClickGenerate r))"
| "dispatch r (Settles i settled) = Some (FetchSettles i settled)"
| "dispatch r (PressCopy exec) =
     (if truthy (generatedPrompt r) then Some (ClickCopy (generatedPrompt r) exec) else None)"
| "dispatch r (Timeout i) = Some (TimerFires i)"

text \<open>
  The page is the component with what surrounds it, and the state it was last rendered
  from. \<^verbatim>\<open>Rerender\<close> brings the second up to date; every other input leaves it behind.
\<close>

fun react :: "platform \<Rightarrow> world \<times> app_state \<Rightarrow> input \<Rightarrow> world \<times> app_state" where
  "react pf (w, r) Rerender = (w, ui w)"
| "react pf (w, r) i = (case dispatch r i of None \<Rightarrow> (w, r) | Some ev \<Rightarrow> (step pf w ev, r))"

definition run :: "platform \<Rightarrow> world \<times> app_state \<Rightarrow> input list \<Rightarrow> world \<times> app_state" where
  "run pf p ins = foldl (react pf) p ins"

text \<open>The component once mounted in a document: the effect hook has set its timer.\<close>

definition initial_world :: "document \<Rightarrow> world" where
  "initial_world d =
     \<lparr>ui = initial_state, doc = d, timers = [(100, SetAuthReady)], in_flight = []\<rparr>"

definition initial_page :: "document \<Rightarrow> world \<times> app_state" where
  "initial_page d = (initial_world d, initial_state)"

text \<open>
  A run in which no submission starts while another is in flight: after each of its
  inputs at most one request has not settled.
\<close>

fun no_overlap :: "platform \<Rightarrow> world \<times> app_state \<Rightarrow> input list \<Rightarrow> bool" where
  "no_overlap pf p [] = True"
| "no_overlap pf p (i # ins) =
     (length (in_flight (fst (react pf p i))) \<le> 1 \<and> no_overlap pf (react pf p i) ins)"

text \<open>
  What the proofs about such runs carry from input to input: while a request is in
  flight the output and the error message are both empty, and otherwise at most one of
  them is not.
\<close>

definition single_status :: "world \<Rightarrow> bool" where
  "single_status w =
     (if in_flight w = [] then generatedPrompt (ui w) = JStr [] \<or> error (ui w) = []
      else generatedPrompt (ui w) = JStr [] \<and> error (ui w) = [])"

text \<open>A document in which every child of the body is a node created before.\<close>

definition well_formed :: "document \<Rightarrow> bool" where
  "well_formed d = list_all (\<lambda>c. node c < created d) (body d)"

section \<open>Properties of the instruction text\<close>

lemma sublist_concat_member: "x \<in> set xs \<Longrightarrow> sublist x (concat xs)"
proof -
  assume "x \<in> set xs"
  then obtain as bs where "xs = as @ x # bs"
    by (auto dest: split_list)
  then have "concat xs = concat as @ x @ concat bs"
    by simp
  then show ?thesis
    by (simp only: sublist_appendI)
qed

lemma sublist_or_else:
  assumes "sublist (or_else x d) p"
  shows "(x \<noteq> [] \<longrightarrow> sublist x p) \<and> (x = [] \<longrightarrow> sublist d p)"
  using assms by (cases "x = []") (simp_all add: or_else_def)

lemma scene_piece:
  "sublist (or_else (sceneDescription st) ''A captivating and dynamic scene'') (promptText st)"
  unfolding promptText_def by (rule sublist_concat_member) simp

lemma subject_piece:
  "sublist (or_else (subjectFocus st) ''A central, engaging figure or object'') (promptText st)"
  unfolding promptText_def by (rule sublist_concat_member) simp

lemma camera_piece:
  "sublist (or_else (cameraMovements st) ''Sophisticated and fluid camera work (e.g., cinematic tracking shot, slow push-in, dynamic drone view)'') (promptText st)"
  unfolding promptText_def by (rule sublist_concat_member) simp

lemma style_piece:
  "sublist (or_else (visualStyle st) ''A visually stunning and coherent artistic style (e.g., hyperrealistic, fantastical, neo-noir, intricate anime)'') (promptText st)"
  unfolding promptText_def by (rule sublist_concat_member) simp

lemma keywords_piece:
  "sublist (or_else (additionalKeywords st) ''Incorporate rich textures, vibrant colors, atmospheric effects (e.g., volumetric fog, lens flares), detailed reflections, high fidelity, 8K, highly detailed, photorealistic render'') (promptText st)"
  unfolding promptText_def by (rule sublist_concat_member) simp

lemma dialogue_piece:
  \<open>sublist (if textToSpeech st \<noteq> []
      then ''Integrate the following dialogue naturally into the video concept: "'' @ textToSpeech st @ ''"''
      else ''No spoken dialogue specified.'') (promptText st)\<close>
  unfolding promptText_def by (rule sublist_concat_member) simp

lemma dialogue_nonempty:
  assumes "textToSpeech st \<noteq> []"
  shows \<open>sublist (''Integrate the following dialogue naturally into the video concept: "'' @ textToSpeech st @ ''"'')
     (promptText st)\<close>
  using dialogue_piece [of st] assms by (simp only: simp_thms if_True if_False)

lemma dialogue_empty:
  assumes "textToSpeech st = []"
  shows "sublist ''No spoken dialogue specified.'' (promptText st)"
  using dialogue_piece [of st] assms by (simp only: simp_thms if_True if_False)

lemma sublist_middle: "sublist (a @ x @ b) p \<Longrightarrow> sublist x p"
proof -
  assume "sublist (a @ x @ b) p"
  then obtain ps ss where "p = ps @ (a @ x @ b) @ ss"
    by (auto simp: sublist_def)
  then have "p = (ps @ a) @ x @ (b @ ss)"
    by simp
  then show ?thesis
    unfolding sublist_def by blast
qed

text \<open>
  C1. Whatever the ten fields hold, the instruction text built by \<^verbatim>\<open>generatePrompt\<close>
  contains each free-text field (scene description, subject focus, camera movements,
  visual style, additional keywords, dialogue) verbatim when the field is not empty, and
  that field's own fallback phrase when it is empty.
\<close>

theorem promptText_free_text_fields:
  "(sceneDescription st \<noteq> [] \<longrightarrow> sublist (sceneDescription st) (promptText st)) \<and>
   (sceneDescription st = [] \<longrightarrow> sublist ''A captivating and dynamic scene'' (promptText st)) \<and>
   (subjectFocus st \<noteq> [] \<longrightarrow> sublist (subjectFocus st) (promptText st)) \<and>
   (subjectFocus st = [] \<longrightarrow> sublist ''A central, engaging figure or object'' (promptText st)) \<and>
   (cameraMovements st \<noteq> [] \<longrightarrow> sublist (cameraMovements st) (promptText st)) \<and>
   (cameraMovements st = [] \<longrightarrow>
      sublist ''Sophisticated and fluid camera work (e.g., cinematic tracking shot, slow push-in, dynamic drone view)''
        (promptText st)) \<and>
   (visualStyle st \<noteq> [] \<longrightarrow> sublist (visualStyle st) (promptText st)) \<and>
   (visualStyle st = [] \<longrightarrow>
      sublist ''A visually stunning and coherent artistic style (e.g., hyperrealistic, fantastical, neo-noir, intricate anime)''
        (promptText st)) \<and>
   (additionalKeywords st \<noteq> [] \<longrightarrow> sublist (additionalKeywords st) (promptText st)) \<and>
   (additionalKeywords st = [] \<longrightarrow>
      sublist ''Incorporate rich textures, vibrant colors, atmospheric effects (e.g., volumetric fog, lens flares), detailed reflections, high fidelity, 8K, highly detailed, photorealistic render''
        (promptText st)) \<and>
   (textToSpeech st \<noteq> [] \<longrightarrow> sublist (textToSpeech st) (promptText st)) \<and>
   (textToSpeech st = [] \<longrightarrow> sublist ''No spoken dialogue specified.'' (promptText st))"
proof -
  have "textToSpeech st \<noteq> [] \<longrightarrow> sublist (textToSpeech st) (promptText st)"
    using dialogue_nonempty [of st] by (blast intro: sublist_middle)
  moreover have "textToSpeech st = [] \<longrightarrow> sublist ''No spoken dialogue specified.'' (promptText st)"
    using dialogue_empty [of st] by blast
  ultimately show ?thesis
    using sublist_or_else [OF scene_piece [of st]] sublist_or_else [OF subject_piece [of st]]
      sublist_or_else [OF camera_piece [of st]] sublist_or_else [OF style_piece [of st]]
      sublist_or_else [OF keywords_piece [of st]]
    by blast
qed

theorem promptText_free_text_fields_witness:
  "sublist ''A captivating and dynamic scene'' (promptText initial_state) \<and>
   sublist ''A central, engaging figure or object'' (promptText initial_state) \<and>
   sublist ''Sophisticated and fluid camera work (e.g., cinematic tracking shot, slow push-in, dynamic drone view)'' (promptText initial_state) \<and>
   sublist ''A visually stunning and coherent artistic style (e.g., hyperrealistic, fantastical, neo-noir, intricate anime)'' (promptText initial_state) \<and>
   sublist ''Incorporate rich textures, vibrant colors, atmospheric effects (e.g., volumetric fog, lens flares), detailed reflections, high fidelity, 8K, highly detailed, photorealistic render'' (promptText initial_state) \<and>
   sublist ''No spoken dialogue specified.'' (promptText initial_state) \<and>
   sublist ''a rainy harbour''
     (promptText (initial_state\<lparr>sceneDescription := ''a rainy harbour'', subjectFocus := ''a lighthouse keeper'',
        cameraMovements := ''slow pan'', visualStyle := ''film noir'', additionalKeywords := ''fog'',
        textToSpeech := ''Hello''\<rparr>)) \<and>
   sublist ''a lighthouse keeper''
     (promptText (initial_state\<lparr>sceneDescription := ''a rainy harbour'', subjectFocus := ''a lighthouse keeper'',
        cameraMovements := ''slow pan'', visualStyle := ''film noir'', additionalKeywords := ''fog'',
        textToSpeech := ''Hello''\<rparr>)) \<and>
   sublist ''slow pan''
     (promptText (initial_state\<lparr>sceneDescription := ''a rainy harbour'', subjectFocus := ''a lighthouse keeper'',
        cameraMovements := ''slow pan'', visualStyle := ''film noir'', additionalKeywords := ''fog'',
        textToSpeech := ''Hello''\<rparr>)) \<and>
   sublist ''film noir''
     (promptText (initial_state\<lparr>sceneDescription := ''a rainy harbour'', subjectFocus := ''a lighthouse keeper'',
        cameraMovements := ''slow pan'', visualStyle := ''film noir'', additionalKeywords := ''fog'',
        textToSpeech := ''Hello''\<rparr>)) \<and>
   sublist ''fog''
     (promptText (initial_state\<lparr>sceneDescription := ''a rainy harbour'', subjectFocus := ''a lighthouse keeper'',
        cameraMovements := ''slow pan'', visualStyle := ''film noir'', additionalKeywords := ''fog'',
        textToSpeech := ''Hello''\<rparr>)) \<and>
   sublist ''Hello''
     (promptText (initial_state\<lparr>sceneDescription := ''a rainy harbour'', subjectFocus := ''a lighthouse keeper'',
        cameraMovements := ''slow pan'', visualStyle := ''film noir'', additionalKeywords := ''fog'',
        textToSpeech := ''Hello''\<rparr>))"
  using promptText_free_text_fields [of initial_state]
    promptText_free_text_fields [of
      "initial_state\<lparr>sceneDescription := ''a rainy harbour'', subjectFocus := ''a lighthouse keeper'',
        cameraMovements := ''slow pan'', visualStyle := ''film noir'', additionalKeywords := ''fog'',
        textToSpeech := ''Hello''\<rparr>"]
  by (simp add: initial_state_def)

text \<open>
  C5. With an empty \<^verbatim>\<open>textToSpeech\<close> the instruction text contains the fixed phrase
  \<^verbatim>\<open>No spoken dialogue specified.\<close>; with a non-empty one it contains the instruction
  to integrate the dialogue, with that exact dialogue between double quotes.
\<close>

theorem promptText_dialogue:
  \<open>(textToSpeech st = [] \<longrightarrow> sublist ''No spoken dialogue specified.'' (promptText st)) \<and>
   (textToSpeech st \<noteq> [] \<longrightarrow>
      sublist (''Integrate the following dialogue naturally into the video concept: "'' @ textToSpeech st @ ''"'')
        (promptText st))\<close>
  using dialogue_nonempty [of st] dialogue_empty [of st] by blast

theorem promptText_dialogue_witness:
  \<open>sublist ''Integrate the following dialogue naturally into the video concept: "Hello"''
     (promptText (initial_state\<lparr>textToSpeech := ''Hello''\<rparr>)) \<and>
   sublist ''No spoken dialogue specified.'' (promptText initial_state)\<close>
  using promptText_dialogue [of "initial_state\<lparr>textToSpeech := ''Hello''\<rparr>"]
    promptText_dialogue [of initial_state]
  by (simp add: initial_state_def)

section \<open>Properties of a submission\<close>

lemma generatePrompt_start_state:
  "fst (generatePrompt_start st) =
     st\<lparr>generatedPrompt := JStr [], error := [], copyMessage := [], isLoading := True\<rparr>"
  by (simp add: generatePrompt_start_def clear_messages_def Let_def)

lemma generatePrompt_start_request:
  "snd (generatePrompt_start st) = fetch_request (promptText st)"
  by (simp add: generatePrompt_start_def Let_def)

lemma generatePrompt_run:
  "generatePrompt pf network st =
     (generatePrompt_settle pf (network (snd (generatePrompt_start st))) (fst (generatePrompt_start st)),
      [snd (generatePrompt_start st)])"
  by (simp add: generatePrompt_def split_beta Let_def)

lemma settle_thrown:
  "try_body pf settled = Inl err \<Longrightarrow>
   generatePrompt_settle pf settled st =
     st\<lparr>error := ''Error generating prompt: '' @ message_of pf err, isLoading := False\<rparr>"
  by (simp add: generatePrompt_settle_def)

lemma settle_prompt:
  "try_body pf settled = Inr (SetGeneratedPrompt t) \<Longrightarrow>
   generatePrompt_settle pf settled st = st\<lparr>generatedPrompt := t, isLoading := False\<rparr>"
  by (simp add: generatePrompt_settle_def)

lemma settle_error:
  "try_body pf settled = Inr (SetError m) \<Longrightarrow>
   generatePrompt_settle pf settled st = st\<lparr>error := m, isLoading := False\<rparr>"
  by (simp add: generatePrompt_settle_def)

lemma settle_clears_busy: "\<not> isLoading (generatePrompt_settle pf settled st)"
  by (simp add: generatePrompt_settle_def Let_def)

lemma chain_message:
  "and_then (opt_chain d ''error'') (\<lambda>e. opt_chain e ''message'') =
     Inr (case error_message_field d of None \<Rightarrow> JUndefined | Some m \<Rightarrow> m)"
proof (cases "field d ''error''")
  case None
  then have "opt_chain d ''error'' = Inr JUndefined"
    by (cases d) (simp_all add: opt_chain_def)
  with None show ?thesis
    by (simp add: and_then_def error_message_field_def opt_chain_def)
next
  case (Some e)
  then have "opt_chain d ''error'' = Inr e"
    by (cases d) (simp_all add: opt_chain_def)
  moreover have "opt_chain e ''message'' = Inr (case field e ''message'' of None \<Rightarrow> JUndefined | Some m \<Rightarrow> m)"
    by (cases e) (simp_all add: opt_chain_def)
  ultimately show ?thesis
    using Some by (simp add: and_then_def error_message_field_def)
qed

lemma and_then_assoc:
  "and_then a (\<lambda>x. and_then (f x) g) = and_then (and_then a f) g"
  by (simp add: and_then_def split: sum.splits)

lemma api_error_message:
  "api_error pf r d =
     (case ToString pf
             (if truthy (case error_message_field d of None \<Rightarrow> JUndefined | Some m \<Rightarrow> m)
              then (case error_message_field d of None \<Rightarrow> JUndefined | Some m \<Rightarrow> m)
              else JStr ''Unknown error'') of
        Inl e \<Rightarrow> e
      | Inr s \<Rightarrow> Error (''API error: '' @ show_nat (status r) @ '' '' @ statusText r @ '' - '' @ s))"
proof -
  have "and_then (opt_chain d ''error'') (\<lambda>e. and_then (opt_chain e ''message'') g) =
        g (case error_message_field d of None \<Rightarrow> JUndefined | Some m \<Rightarrow> m)" for g :: "js \<Rightarrow> thrown + string"
    by (simp only: and_then_assoc chain_message) (simp add: and_then_def)
  then show ?thesis
    by (simp only: api_error_def)
qed

lemma try_body_not_ok:
  "\<not> ok r \<Longrightarrow> try_body pf (Inr r) =
     Inl (case json r of Inl m \<Rightarrow> Rejection m | Inr d \<Rightarrow> api_error pf r d)"
  by (simp add: try_body_def split: sum.splits)

text \<open>
  C8. Every run of \<^verbatim>\<open>generatePrompt\<close> issues exactly one request: a POST to the fixed
  endpoint of the generative-language service whose JSON body is
  \<^verbatim>\<open>{"contents": [{"role": "user", "parts": [{"text": <instruction text>}]}]}\<close>, the
  assembled instruction text being its only turn.
\<close>

theorem generatePrompt_one_post:
  "snd (generatePrompt pf network st) =
     [\<lparr>url = ''https://generativelanguage.googleapis.com/v1beta/models/gemini-2.0-flash:generateContent?key='',
       http_method = ''POST'',
       headers = [(''Content-Type'', ''application/json'')],
       payload = JObj [(''contents'',
         JArr [JObj [(''role'', JStr ''user''),
                     (''parts'', JArr [JObj [(''text'', JStr (promptText st))]])]])]\<rparr>]"
  by (simp add: generatePrompt_run generatePrompt_start_request fetch_request_def chatHistory_def
      apiUrl_def apiKey_def)

text \<open>
  C10. When a response is not \<^verbatim>\<open>ok\<close> and its body parses as JSON but has no
  \<^verbatim>\<open>error.message\<close> field, the message of the failure is the status code and the status
  text followed by the fixed text \<^verbatim>\<open>Unknown error\<close>, with which it ends.
\<close>

theorem unknown_error_fallback:
  assumes "network (snd (generatePrompt_start st)) = Inr r"
    and "\<not> ok r"
    and "json r = Inr d"
    and "error_message_field d = None"
  shows "error (fst (generatePrompt pf network st)) =
           ''Error generating prompt: API error: '' @ show_nat (status r) @ '' '' @ statusText r @
           '' - '' @ ''Unknown error'' \<and>
         suffix ''Unknown error'' (error (fst (generatePrompt pf network st)))"
proof -
  have "api_error pf r d =
      Error (''API error: '' @ show_nat (status r) @ '' '' @ statusText r @ '' - '' @ ''Unknown error'')"
    using assms(4) by (simp add: api_error_message)
  with assms(2,3) have "try_body pf (Inr r) =
      Inl (Error (''API error: '' @ show_nat (status r) @ '' '' @ statusText r @ '' - '' @ ''Unknown error''))"
    by (simp add: try_body_not_ok)
  then have e: "error (fst (generatePrompt pf network st)) =
      ''Error generating prompt: '' @ (''API error: '' @ show_nat (status r) @ '' '' @ statusText r @ '' - '' @ ''Unknown error'')"
    using assms(1) by (simp add: generatePrompt_run settle_thrown)
  have "suffix ''Unknown error'' (error (fst (generatePrompt pf network st)))"
    unfolding e suffix_def by (rule exI [of _ "''Error generating prompt: '' @ ''API error: '' @ show_nat (status r) @ '' '' @ statusText r @ '' - ''"]) simp
  with e show ?thesis
    by simp
qed

theorem unknown_error_fallback_witness:
  "error (fst (generatePrompt example_platform
      (\<lambda>req. Inr \<lparr>ok = False, status = 503, statusText = ''Service Unavailable'',
                   json = Inr (JObj [(''code'', JNum (Finite 503))])\<rparr>)
      initial_state)) =
   ''Error generating prompt: API error: 503 Service Unavailable - Unknown error''"
  using unknown_error_fallback [of
      "\<lambda>req. Inr \<lparr>ok = False, status = 503, statusText = ''Service Unavailable'',
                   json = Inr (JObj [(''code'', JNum (Finite 503))])\<rparr>"
      initial_state
      "\<lparr>ok = False, status = 503, statusText = ''Service Unavailable'',
        json = Inr (JObj [(''code'', JNum (Finite 503))])\<rparr>"
      "JObj [(''code'', JNum (Finite 503))]" example_platform]
  by (simp add: error_message_field_def show_nat.simps digit_char_def)

lemma example_no_primitive:
  "typeErrorMessage example_platform NoPrimitiveValue = ''Cannot convert object to primitive value''"
  by (simp add: example_platform_def)

text \<open>
  C3, as the code has it. Whenever the response is not \<^verbatim>\<open>ok\<close>, the run ends in the failed
  status: no output, the busy flag cleared, and an error message. When the body parses,
  the error message combines the status code, the status text and the server's message:
  the text of \<^verbatim>\<open>error.message\<close> when the field is there and truthy, \<^verbatim>\<open>Unknown error\<close> when it
  is missing or falsy. When the conversion of the server's message to text raises, or
  when parsing the body fails, the message of what was raised reaches the same failed
  status, without the status code and the status text.
\<close>

theorem not_ok_response_fails:
  assumes "network (snd (generatePrompt_start st)) = Inr r"
    and "\<not> ok r"
  shows "prefix ''Error generating prompt: '' (error (fst (generatePrompt pf network st))) \<and>
         generatedPrompt (fst (generatePrompt pf network st)) = JStr [] \<and>
         \<not> isLoading (fst (generatePrompt pf network st)) \<and>
         (\<forall>d m. json r = Inr d \<and> error_message_field d = Some (JStr m) \<and> m \<noteq> [] \<longrightarrow>
            error (fst (generatePrompt pf network st)) =
              ''Error generating prompt: API error: '' @ show_nat (status r) @ '' '' @ statusText r @
              '' - '' @ m) \<and>
         (\<forall>d v s. json r = Inr d \<and> error_message_field d = Some v \<and> truthy v \<and>
              ToString pf v = Inr s \<longrightarrow>
            error (fst (generatePrompt pf network st)) =
              ''Error generating prompt: API error: '' @ show_nat (status r) @ '' '' @ statusText r @
              '' - '' @ s) \<and>
         (\<forall>d. json r = Inr d \<and>
              (error_message_field d = None \<or> (\<exists>v. error_message_field d = Some v \<and> \<not> truthy v)) \<longrightarrow>
            error (fst (generatePrompt pf network st)) =
              ''Error generating prompt: API error: '' @ show_nat (status r) @ '' '' @ statusText r @
              '' - '' @ ''Unknown error'') \<and>
         (\<forall>d v e. json r = Inr d \<and> error_message_field d = Some v \<and> truthy v \<and>
              ToString pf v = Inl e \<longrightarrow>
            error (fst (generatePrompt pf network st)) = ''Error generating prompt: '' @ message_of pf e) \<and>
         (\<forall>m. json r = Inl m \<longrightarrow>
            error (fst (generatePrompt pf network st)) = ''Error generating prompt: '' @ m)"
proof -
  let ?e = "case json r of Inl m \<Rightarrow> Rejection m | Inr d \<Rightarrow> api_error pf r d"
  have run: "fst (generatePrompt pf network st) =
      (fst (generatePrompt_start st))\<lparr>error := ''Error generating prompt: '' @ message_of pf ?e,
        isLoading := False\<rparr>"
    using assms by (simp add: generatePrompt_run settle_thrown try_body_not_ok)
  have "error (fst (generatePrompt pf network st)) = ''Error generating prompt: '' @ message_of pf ?e"
    unfolding run by simp
  then have failed: "prefix ''Error generating prompt: '' (error (fst (generatePrompt pf network st)))"
    by (rule prefixI)
  have rest: "generatedPrompt (fst (generatePrompt pf network st)) = JStr [] \<and>
      \<not> isLoading (fst (generatePrompt pf network st))"
    unfolding run by (simp add: generatePrompt_start_state)
  have server: "error (fst (generatePrompt pf network st)) =
      ''Error generating prompt: API error: '' @ show_nat (status r) @ '' '' @ statusText r @ '' - '' @ s"
    if "json r = Inr d" "error_message_field d = Some v" "truthy v" "ToString pf v = Inr s"
    for d v s
    unfolding run using that by (simp add: api_error_message)
  have plain: "error (fst (generatePrompt pf network st)) =
      ''Error generating prompt: API error: '' @ show_nat (status r) @ '' '' @ statusText r @ '' - '' @ m"
    if "json r = Inr d" "error_message_field d = Some (JStr m)" "m \<noteq> []" for d m
    using server [OF that(1,2), of m] that(3) by simp
  have unknown: "error (fst (generatePrompt pf network st)) =
      ''Error generating prompt: API error: '' @ show_nat (status r) @ '' '' @ statusText r @ '' - '' @
      ''Unknown error''"
    if "json r = Inr d"
      "error_message_field d = None \<or> (\<exists>v. error_message_field d = Some v \<and> \<not> truthy v)" for d
    unfolding run using that by (auto simp add: api_error_message)
  have raised: "error (fst (generatePrompt pf network st)) = ''Error generating prompt: '' @ message_of pf e"
    if "json r = Inr d" "error_message_field d = Some v" "truthy v" "ToString pf v = Inl e"
    for d v e
    unfolding run using that by (simp add: api_error_message)
  have parse: "error (fst (generatePrompt pf network st)) = ''Error generating prompt: '' @ m"
    if "json r = Inl m" for m
    unfolding run using that by simp
  from failed rest plain server unknown raised parse show ?thesis
    by blast
qed

theorem not_ok_response_fails_witness:
  "error (fst (generatePrompt example_platform
      (\<lambda>req. Inr \<lparr>ok = False, status = 500, statusText = ''Internal Server Error'',
                   json = Inr (JObj [(''error'', JObj [(''message'', JStr ''server down'')])])\<rparr>)
      initial_state)) =
     ''Error generating prompt: API error: 500 Internal Server Error - server down'' \<and>
   error (fst (generatePrompt example_platform
      (\<lambda>req. Inr \<lparr>ok = False, status = 429, statusText = ''Too Many Requests'',
                   json = Inr (JObj [(''error'', JObj [(''message'', JStr [])])])\<rparr>)
      initial_state)) =
     ''Error generating prompt: API error: 429 Too Many Requests - Unknown error'' \<and>
   error (fst (generatePrompt example_platform
      (\<lambda>req. Inr \<lparr>ok = False, status = 400, statusText = ''Bad Request'',
                   json = Inr (JObj [(''error'',
                     JObj [(''message'', JObj [(''toString'', JNum (Finite 1))])])])\<rparr>)
      initial_state)) =
     ''Error generating prompt: Cannot convert object to primitive value'' \<and>
   error (fst (generatePrompt example_platform
      (\<lambda>req. Inr \<lparr>ok = False, status = 502, statusText = ''Bad Gateway'',
                   json = Inl ''Unexpected end of JSON input''\<rparr>)
      initial_state)) =
     ''Error generating prompt: Unexpected end of JSON input''"
  using not_ok_response_fails [of
      "\<lambda>req. Inr \<lparr>ok = False, status = 500, statusText = ''Internal Server Error'',
                   json = Inr (JObj [(''error'', JObj [(''message'', JStr ''server down'')])])\<rparr>"
      initial_state
      "\<lparr>ok = False, status = 500, statusText = ''Internal Server Error'',
        json = Inr (JObj [(''error'', JObj [(''message'', JStr ''server down'')])])\<rparr>"
      example_platform]
    not_ok_response_fails [of
      "\<lambda>req. Inr \<lparr>ok = False, status = 429, statusText = ''Too Many Requests'',
                   json = Inr (JObj [(''error'', JObj [(''message'', JStr [])])])\<rparr>"
      initial_state
      "\<lparr>ok = False, status = 429, statusText = ''Too Many Requests'',
        json = Inr (JObj [(''error'', JObj [(''message'', JStr [])])])\<rparr>"
      example_platform]
    not_ok_response_fails [of
      "\<lambda>req. Inr \<lparr>ok = False, status = 400, statusText = ''Bad Request'',
                   json = Inr (JObj [(''error'',
                     JObj [(''message'', JObj [(''toString'', JNum (Finite 1))])])])\<rparr>"
      initial_state
      "\<lparr>ok = False, status = 400, statusText = ''Bad Request'',
        json = Inr (JObj [(''error'',
          JObj [(''message'', JObj [(''toString'', JNum (Finite 1))])])])\<rparr>"
      example_platform]
    not_ok_response_fails [of
      "\<lambda>req. Inr \<lparr>ok = False, status = 502, statusText = ''Bad Gateway'',
                   json = Inl ''Unexpected end of JSON input''\<rparr>"
      initial_state
      "\<lparr>ok = False, status = 502, statusText = ''Bad Gateway'',
        json = Inl ''Unexpected end of JSON input''\<rparr>"
      example_platform]
  by (simp add: error_message_field_def show_nat.simps digit_char_def example_no_primitive)

text \<open>
  C3 as the specification words it does not hold of the code. A response with status 400,
  status text \<^verbatim>\<open>Bad Request\<close> and the body \<^verbatim>\<open>{"error":{"message":{"toString":1}}}\<close> fails
  with the message of the \<^verbatim>\<open>TypeError\<close> that the conversion of the server's message
  raised, which holds neither the status code nor the status text.
\<close>

theorem not_ok_response_counterexample:
  "error (generatePrompt_settle example_platform
      (Inr \<lparr>ok = False, status = 400, statusText = ''Bad Request'',
         json = Inr (JObj [(''error'',
           JObj [(''message'', JObj [(''toString'', JNum (Finite 1))])])])\<rparr>)
      (fst (generatePrompt_start initial_state))) =
     ''Error generating prompt: Cannot convert object to primitive value'' \<and>
   \<not> sublist ''400'' ''Error generating prompt: Cannot convert object to primitive value'' \<and>
   \<not> sublist ''Bad Request'' ''Error generating prompt: Cannot convert object to primitive value''"
proof -
  have "error (generatePrompt_settle example_platform
      (Inr \<lparr>ok = False, status = 400, statusText = ''Bad Request'',
         json = Inr (JObj [(''error'',
           JObj [(''message'', JObj [(''toString'', JNum (Finite 1))])])])\<rparr>)
      (fst (generatePrompt_start initial_state))) =
     ''Error generating prompt: Cannot convert object to primitive value''"
    by (simp add: generatePrompt_settle_def try_body_def api_error_def opt_chain_def and_then_def
        example_no_primitive)
  moreover have
    "\<not> sublist ''400'' ''Error generating prompt: Cannot convert object to primitive value''"
    by code_simp
  moreover have
    "\<not> sublist ''Bad Request'' ''Error generating prompt: Cannot convert object to primitive value''"
    by code_simp
  ultimately show ?thesis
    by blast
qed

text \<open>What the settling part does on the shapes its guard tests.\<close>

lemma field_SomeD: "field v k = Some x \<Longrightarrow> \<exists>ps. v = JObj ps \<and> map_of ps k = Some x"
  by (cases v) simp_all

lemma try_body_ok:
  "ok r \<Longrightarrow> json r = Inr result \<Longrightarrow>
   try_body pf (Inr r) =
     and_then (has_content pf result) (\<lambda>valid.
       if valid then and_then (first_part_text result) (\<lambda>t. Inr (SetGeneratedPrompt t))
       else Inr (SetError ''Failed to generate prompt: No valid content from API.''))"
  by (simp add: try_body_def)

lemma try_body_text:
  assumes "ok r" and "json r = Inr result"
    and "field result ''candidates'' = Some (JArr (c # cs))"
    and "field c ''content'' = Some content"
    and "field content ''parts'' = Some (JArr (p # ps))"
    and "field p ''text'' = Some t"
  shows "try_body pf (Inr r) = Inr (SetGeneratedPrompt t)"
proof -
  obtain rps where r: "result = JObj rps" "map_of rps ''candidates'' = Some (JArr (c # cs))"
    using assms(3) by (blast dest: field_SomeD)
  obtain cps where c: "c = JObj cps" "map_of cps ''content'' = Some content"
    using assms(4) by (blast dest: field_SomeD)
  obtain tps where t: "content = JObj tps" "map_of tps ''parts'' = Some (JArr (p # ps))"
    using assms(5) by (blast dest: field_SomeD)
  obtain pps where p: "p = JObj pps" "map_of pps ''text'' = Some t"
    using assms(6) by (blast dest: field_SomeD)
  have "has_content pf result = Inr True"
    by (simp add: has_content_def and_then_def greater_than_zero_def r c t)
  moreover have "first_part_text result = Inr t"
    by (simp add: first_part_text_def and_then_def r c t p)
  ultimately show ?thesis
    using assms(1,2) by (simp add: try_body_ok and_then_def)
qed

lemma try_body_no_candidates:
  assumes "ok r" and "json r = Inr (JObj rps)"
    and "map_of rps ''candidates'' = None \<or> map_of rps ''candidates'' = Some (JArr [])"
  shows "try_body pf (Inr r) = Inr (SetError ''Failed to generate prompt: No valid content from API.'')"
proof -
  have "has_content pf (JObj rps) = Inr False"
    using assms(3) by (auto simp add: has_content_def and_then_def greater_than_zero_def)
  then show ?thesis
    using assms(1,2) by (simp add: try_body_ok and_then_def)
qed

lemma try_body_part_without_text:
  assumes "ok r" and "json r = Inr result"
    and "field result ''candidates'' = Some (JArr (c # cs))"
    and "field c ''content'' = Some content"
    and "field content ''parts'' = Some (JArr (JObj pps # ps))"
    and "map_of pps ''text'' = None"
  shows "try_body pf (Inr r) = Inr (SetGeneratedPrompt JUndefined)"
proof -
  obtain rps where r: "result = JObj rps" "map_of rps ''candidates'' = Some (JArr (c # cs))"
    using assms(3) by (blast dest: field_SomeD)
  obtain cps where c: "c = JObj cps" "map_of cps ''content'' = Some content"
    using assms(4) by (blast dest: field_SomeD)
  obtain tps where t: "content = JObj tps" "map_of tps ''parts'' = Some (JArr (JObj pps # ps))"
    using assms(5) by (blast dest: field_SomeD)
  have "has_content pf result = Inr True"
    by (simp add: has_content_def and_then_def greater_than_zero_def r c t)
  moreover have "first_part_text result = Inr JUndefined"
    using assms(6) by (simp add: first_part_text_def and_then_def r c t)
  ultimately show ?thesis
    using assms(1,2) by (simp add: try_body_ok and_then_def)
qed

text \<open>
  C2 at a response that is \<^verbatim>\<open>ok\<close> with the body
  \<^verbatim>\<open>{"candidates":[{"content":{"parts":[{}]}}]}\<close>, whose first part has no \<^verbatim>\<open>text\<close> field:
  the run leaves \<^verbatim>\<open>undefined\<close> as output and no error message at all, where an empty
  \<^verbatim>\<open>candidates\<close> list gives the fixed message
  \<^verbatim>\<open>Failed to generate prompt: No valid content from API.\<close>
\<close>

theorem part_without_text_sets_no_error:
  "generatedPrompt (generatePrompt_settle example_platform
      (Inr \<lparr>ok = True, status = 200, statusText = ''OK'',
         json = Inr (JObj [(''candidates'',
           JArr [JObj [(''content'', JObj [(''parts'', JArr [JObj []])])]])])\<rparr>)
      (fst (generatePrompt_start initial_state))) = JUndefined \<and>
   error (generatePrompt_settle example_platform
      (Inr \<lparr>ok = True, status = 200, statusText = ''OK'',
         json = Inr (JObj [(''candidates'',
           JArr [JObj [(''content'', JObj [(''parts'', JArr [JObj []])])]])])\<rparr>)
      (fst (generatePrompt_start initial_state))) = [] \<and>
   error (generatePrompt_settle example_platform
      (Inr \<lparr>ok = True, status = 200, statusText = ''OK'',
         json = Inr (JObj [(''candidates'',
           JArr [JObj [(''content'', JObj [(''parts'', JArr [JObj []])])]])])\<rparr>)
      (fst (generatePrompt_start initial_state))) \<noteq>
     ''Failed to generate prompt: No valid content from API.'' \<and>
   error (generatePrompt_settle example_platform
      (Inr \<lparr>ok = True, status = 200, statusText = ''OK'',
         json = Inr (JObj [(''candidates'', JArr [])])\<rparr>)
      (fst (generatePrompt_start initial_state))) =
     ''Failed to generate prompt: No valid content from API.''"
  by (simp add: generatePrompt_settle_def try_body_def has_content_def first_part_text_def
      and_then_def greater_than_zero_def generatePrompt_start_state)

section \<open>Properties of runs of the component\<close>

lemma set_field_status:
  "isLoading (set_field f v st) = isLoading st \<and>
   generatedPrompt (set_field f v st) = generatedPrompt st \<and>
   error (set_field f v st) = error st"
  by (cases f) simp_all

lemma copyToClipboard_status:
  "isLoading (ui (copyToClipboard pf exec w)) = isLoading (ui w) \<and>
   generatedPrompt (ui (copyToClipboard pf exec w)) = generatedPrompt (ui w) \<and>
   error (ui (copyToClipboard pf exec w)) = error (ui w) \<and>
   in_flight (copyToClipboard pf exec w) = in_flight w"
  by (simp add: copyToClipboard_def copy_failed_def createElement_def Let_def
      split: sum.splits exec_result.splits option.splits)

lemma fire_status:
  "isLoading (ui (fire a w)) = isLoading (ui w) \<and>
   generatedPrompt (ui (fire a w)) = generatedPrompt (ui w) \<and>
   error (ui (fire a w)) = error (ui w) \<and>
   in_flight (fire a w) = in_flight w"
  by (cases a) simp_all

lemma settle_one_of:
  assumes "generatedPrompt st = JStr []" and "error st = []"
  shows "generatedPrompt (generatePrompt_settle pf settled st) = JStr [] \<or>
         error (generatePrompt_settle pf settled st) = []"
  using assms by (simp add: generatePrompt_settle_def Let_def split: sum.splits update.splits)

lemma step_busy:
  assumes "isLoading (ui w) \<longrightarrow> in_flight w \<noteq> []"
  shows "isLoading (ui (step pf w ev)) \<longrightarrow> in_flight (step pf w ev) \<noteq> []"
proof (cases ev)
  case (Edit f v)
  with assms show ?thesis
    by (simp add: set_field_status)
next
  case (ClickGenerate seen)
  then show ?thesis
    by simp
next
  case (FetchSettles i settled)
  with assms show ?thesis
    by (simp add: settle_clears_busy)
next
  case (ClickCopy seen exec)
  with assms show ?thesis
    by (simp add: Let_def copyToClipboard_status)
next
  case (TimerFires i)
  with assms show ?thesis
    by (simp add: fire_status)
qed

lemma react_cases:
  "fst (react pf p i) = fst p \<or> (\<exists>ev. fst (react pf p i) = step pf (fst p) ev)"
proof (cases p)
  case (Pair w r)
  then show ?thesis
    by (cases i) (auto simp del: step.simps split: option.splits)
qed

lemma react_busy:
  assumes "isLoading (ui (fst p)) \<longrightarrow> in_flight (fst p) \<noteq> []"
  shows "isLoading (ui (fst (react pf p i))) \<longrightarrow> in_flight (fst (react pf p i)) \<noteq> []"
  using react_cases [of pf p i] assms step_busy [of "fst p" pf]
  by auto

lemma run_busy:
  "isLoading (ui (fst p)) \<longrightarrow> in_flight (fst p) \<noteq> [] \<Longrightarrow>
   isLoading (ui (fst (run pf p ins))) \<longrightarrow> in_flight (fst (run pf p ins)) \<noteq> []"
  unfolding run_def
proof (induction ins arbitrary: p)
  case Nil
  then show ?case by simp
next
  case (Cons i ins)
  from Cons.IH [OF react_busy [OF Cons.prems]] show ?case
    by simp
qed

text \<open>
  C4. The state in which \<^verbatim>\<open>generatePrompt\<close> issues its request has the busy flag set; the
  state it leaves when the request has settled has the flag cleared, whatever the outcome
  (a response of any shape, a rejected fetch, an exception in between); and in every
  state the page reaches, however its rendering lags behind, the flag is set only while
  a submission has started and has not settled.
\<close>

theorem busy_flag_interval:
  "isLoading (fst (generatePrompt_start st)) \<and>
   \<not> isLoading (generatePrompt_settle pf settled st') \<and>
   (isLoading (ui (fst (run pf (initial_page d) ins))) \<longrightarrow>
      in_flight (fst (run pf (initial_page d) ins)) \<noteq> [])"
proof -
  have "isLoading (ui (fst (initial_page d))) \<longrightarrow> in_flight (fst (initial_page d)) \<noteq> []"
    by (simp add: initial_page_def initial_world_def initial_state_def)
  from run_busy [OF this] show ?thesis
    by (simp add: generatePrompt_start_state settle_clears_busy)
qed

theorem busy_flag_interval_witness:
  "isLoading (ui (fst (run example_platform (initial_page \<lparr>body = [], created = 0\<rparr>)
      [Timeout 0, Rerender, PressGenerate]))) \<and>
   in_flight (fst (run example_platform (initial_page \<lparr>body = [], created = 0\<rparr>)
      [Timeout 0, Rerender, PressGenerate])) \<noteq> [] \<and>
   \<not> isLoading (ui (fst (run example_platform (initial_page \<lparr>body = [], created = 0\<rparr>)
      [Timeout 0, Rerender, PressGenerate, Settles 0 (Inl ''Failed to fetch'')])))"
  using busy_flag_interval [of initial_state example_platform "Inl ''Failed to fetch''" initial_state
      "\<lparr>body = [], created = 0\<rparr>" "[Timeout 0, Rerender, PressGenerate]"]
  by (simp add: run_def initial_page_def initial_world_def initial_state_def
      generatePrompt_start_state settle_clears_busy)

lemma step_single:
  assumes "single_status w" and "length (in_flight w) \<le> 1"
  shows "single_status (step pf w ev)"
proof (cases ev)
  case (Edit f v)
  with assms(1) show ?thesis
    by (simp add: single_status_def set_field_status)
next
  case (ClickGenerate seen)
  then show ?thesis
    by (simp add: single_status_def generatePrompt_start_state)
next
  case (FetchSettles i settled)
  show ?thesis
  proof (cases "i < length (in_flight w)")
    case False
    with assms(1) FetchSettles show ?thesis
      by simp
  next
    case True
    with assms(2) have one: "i = 0" "length (in_flight w) = 1"
      by simp_all
    then have "in_flight w \<noteq> []"
      by auto
    with assms(1) have "generatedPrompt (ui w) = JStr []" "error (ui w) = []"
      by (simp_all add: single_status_def)
    from settle_one_of [OF this] one FetchSettles show ?thesis
      by (simp add: single_status_def)
  qed
next
  case (ClickCopy seen exec)
  with assms(1) show ?thesis
    by (simp add: single_status_def Let_def copyToClipboard_status)
next
  case (TimerFires i)
  with assms(1) show ?thesis
    by (simp add: single_status_def fire_status)
qed

lemma react_single:
  assumes "single_status (fst p)" and "length (in_flight (fst p)) \<le> 1"
  shows "single_status (fst (react pf p i))"
  using react_cases [of pf p i] assms step_single [of "fst p" pf]
  by auto

lemma run_single:
  "single_status (fst p) \<Longrightarrow> length (in_flight (fst p)) \<le> 1 \<Longrightarrow> no_overlap pf p ins \<Longrightarrow>
   single_status (fst (run pf p ins))"
  unfolding run_def
proof (induction ins arbitrary: p)
  case Nil
  then show ?case by simp
next
  case (Cons i ins)
  from Cons.prems have "single_status (fst (react pf p i))"
    by (simp add: react_single)
  with Cons.prems(3) Cons.IH [of "react pf p i"] show ?case
    by simp
qed

text \<open>
  C9, as the code has it. \<^verbatim>\<open>generatePrompt\<close> clears the output, the error message and the
  copy notification and only then sets the busy flag. Hence after a run of it has settled
  at most one of the output and the error message is not empty; and the same holds in
  every state the page reaches, as long as no submission starts while another is in
  flight.
\<close>

theorem submit_clears_previous_status:
  "fst (generatePrompt_start st) = (clear_messages st)\<lparr>isLoading := True\<rparr> \<and>
   generatedPrompt (clear_messages st) = JStr [] \<and>
   error (clear_messages st) = [] \<and>
   copyMessage (clear_messages st) = [] \<and>
   (generatedPrompt (fst (generatePrompt pf network st)) = JStr [] \<or>
    error (fst (generatePrompt pf network st)) = []) \<and>
   (no_overlap pf (initial_page d) ins \<longrightarrow>
      generatedPrompt (ui (fst (run pf (initial_page d) ins))) = JStr [] \<or>
      error (ui (fst (run pf (initial_page d) ins))) = [])"
proof -
  have "generatedPrompt (fst (generatePrompt pf network st)) = JStr [] \<or>
      error (fst (generatePrompt pf network st)) = []"
    unfolding generatePrompt_run fst_conv
    by (rule settle_one_of) (simp_all add: generatePrompt_start_state)
  moreover have "generatedPrompt (ui (fst (run pf (initial_page d) ins))) = JStr [] \<or>
      error (ui (fst (run pf (initial_page d) ins))) = []"
    if "no_overlap pf (initial_page d) ins"
  proof -
    have "single_status (fst (initial_page d))" "length (in_flight (fst (initial_page d))) \<le> 1"
      by (simp_all add: single_status_def initial_page_def initial_world_def initial_state_def)
    from run_single [OF this that] show ?thesis
      by (simp add: single_status_def split: if_splits)
  qed
  ultimately show ?thesis
    by (simp add: generatePrompt_start_def clear_messages_def Let_def)
qed

theorem submit_clears_previous_status_witness:
  "no_overlap example_platform (initial_page \<lparr>body = [], created = 0\<rparr>)
      [Timeout 0, Rerender, PressGenerate,
       Settles 0 (Inr \<lparr>ok = True, status = 200, statusText = ''OK'',
         json = Inr (JObj [(''candidates'',
           JArr [JObj [(''content'', JObj [(''parts'', JArr [JObj [(''text'', JStr ''X'')]])])]])])\<rparr>),
       Rerender, PressGenerate, Settles 0 (Inl ''Failed to fetch'')] \<and>
   generatedPrompt (ui (fst (run example_platform (initial_page \<lparr>body = [], created = 0\<rparr>)
      [Timeout 0, Rerender, PressGenerate,
       Settles 0 (Inr \<lparr>ok = True, status = 200, statusText = ''OK'',
         json = Inr (JObj [(''candidates'',
           JArr [JObj [(''content'', JObj [(''parts'', JArr [JObj [(''text'', JStr ''X'')]])])]])])\<rparr>),
       Rerender, PressGenerate, Settles 0 (Inl ''Failed to fetch'')]))) = JStr [] \<and>
   error (ui (fst (run example_platform (initial_page \<lparr>body = [], created = 0\<rparr>)
      [Timeout 0, Rerender, PressGenerate,
       Settles 0 (Inr \<lparr>ok = True, status = 200, statusText = ''OK'',
         json = Inr (JObj [(''candidates'',
           JArr [JObj [(''content'', JObj [(''parts'', JArr [JObj [(''text'', JStr ''X'')]])])]])])\<rparr>),
       Rerender, PressGenerate, Settles 0 (Inl ''Failed to fetch'')]))) =
     ''Error generating prompt: Failed to fetch''"
  using submit_clears_previous_status [of initial_state example_platform "\<lambda>req. Inl ''Failed to fetch''"
      "\<lparr>body = [], created = 0\<rparr>"
      "[Timeout 0, Rerender, PressGenerate,
       Settles 0 (Inr \<lparr>ok = True, status = 200, statusText = ''OK'',
         json = Inr (JObj [(''candidates'',
           JArr [JObj [(''content'', JObj [(''parts'', JArr [JObj [(''text'', JStr ''X'')]])])]])])\<rparr>),
       Rerender, PressGenerate, Settles 0 (Inl ''Failed to fetch'')]"]
  by (simp add: run_def initial_page_def initial_world_def initial_state_def generatePrompt_start_state
      generatePrompt_settle_def try_body_def has_content_def first_part_text_def and_then_def
      greater_than_zero_def)

text \<open>
  C9 as the specification words it does not hold of the code. The generate button is
  pressed twice before the page is rendered anew, so that two submissions are in flight;
  the first settles with the text \<^verbatim>\<open>X\<close> and the second with a rejected fetch. The page
  then rests with the output \<^verbatim>\<open>X\<close> beside an error message.
\<close>

theorem overlapping_submissions_counterexample:
  "generatedPrompt (ui (fst (run example_platform (initial_page \<lparr>body = [], created = 0\<rparr>)
      [Timeout 0, Rerender, PressGenerate, PressGenerate,
       Settles 0 (Inr \<lparr>ok = True, status = 200, statusText = ''OK'',
         json = Inr (JObj [(''candidates'',
           JArr [JObj [(''content'', JObj [(''parts'', JArr [JObj [(''text'', JStr ''X'')]])])]])])\<rparr>),
       Settles 0 (Inl ''Failed to fetch'')]))) = JStr ''X'' \<and>
   error (ui (fst (run example_platform (initial_page \<lparr>body = [], created = 0\<rparr>)
      [Timeout 0, Rerender, PressGenerate, PressGenerate,
       Settles 0 (Inr \<lparr>ok = True, status = 200, statusText = ''OK'',
         json = Inr (JObj [(''candidates'',
           JArr [JObj [(''content'', JObj [(''parts'', JArr [JObj [(''text'', JStr ''X'')]])])]])])\<rparr>),
       Settles 0 (Inl ''Failed to fetch'')]))) = ''Error generating prompt: Failed to fetch'' \<and>
   in_flight (fst (run example_platform (initial_page \<lparr>body = [], created = 0\<rparr>)
      [Timeout 0, Rerender, PressGenerate, PressGenerate,
       Settles 0 (Inr \<lparr>ok = True, status = 200, statusText = ''OK'',
         json = Inr (JObj [(''candidates'',
           JArr [JObj [(''content'', JObj [(''parts'', JArr [JObj [(''text'', JStr ''X'')]])])]])])\<rparr>),
       Settles 0 (Inl ''Failed to fetch'')])) = []"
  by (simp add: run_def initial_page_def initial_world_def initial_state_def generatePrompt_start_state
      generatePrompt_settle_def try_body_def has_content_def first_part_text_def and_then_def
      greater_than_zero_def)

section \<open>Properties of the copy operation\<close>

lemma copy_returns:
  assumes "truthy (generatedPrompt (ui w))"
    and "ToString pf (generatedPrompt (ui w)) = Inr v"
    and "well_formed (doc w)"
  shows "body (doc (copyToClipboard pf (Returns copied) w)) = body (doc w) \<and>
         copyMessage (ui (copyToClipboard pf (Returns copied) w)) = ''Prompt disalin!'' \<and>
         timers (copyToClipboard pf (Returns copied) w) = timers w @ [(3000, ClearCopyMessage)]"
proof -
  have "filter (\<lambda>c. node c \<noteq> created (doc w)) (body (doc w)) = body (doc w)"
    using assms(3) by (auto simp add: well_formed_def list_all_iff filter_id_conv)
  then show ?thesis
    using assms(1,2)
    by (simp add: copyToClipboard_def createElement_def appendChild_def removeChild_def Let_def)
qed

lemma copy_throws:
  assumes "truthy (generatedPrompt (ui w))"
    and "ToString pf (generatedPrompt (ui w)) = Inr v"
  shows "body (doc (copyToClipboard pf Throws w)) =
           body (doc w) @ [\<lparr>node = created (doc w), tagName = ''textarea'', elem_value = v\<rparr>] \<and>
         copyMessage (ui (copyToClipboard pf Throws w)) = ''Gagal menyalin prompt.'' \<and>
         timers (copyToClipboard pf Throws w) = timers w"
  using assms
  by (simp add: copyToClipboard_def createElement_def appendChild_def copy_failed_def Let_def)

text \<open>
  C6 at an input where the copy command throws: the output is \<^verbatim>\<open>X\<close>, the body of the
  document is empty. The text area that was appended stays in the body, which is
  therefore not what it was before the call.
\<close>

theorem copy_throw_keeps_textarea:
  "body (doc (copyToClipboard example_platform Throws
      \<lparr>ui = initial_state\<lparr>generatedPrompt := JStr ''X''\<rparr>, doc = \<lparr>body = [], created = 0\<rparr>,
       timers = [], in_flight = []\<rparr>)) =
     [\<lparr>node = 0, tagName = ''textarea'', elem_value = ''X''\<rparr>]"
  by (simp add: copyToClipboard_def createElement_def appendChild_def copy_failed_def Let_def)

text \<open>
  C7 at the same input: the failure notification is set and no timer is, so that no
  firing of a timer clears it.
\<close>

theorem copy_failure_sets_no_timer:
  "copyMessage (ui (copyToClipboard example_platform Throws
      \<lparr>ui = initial_state\<lparr>generatedPrompt := JStr ''X''\<rparr>, doc = \<lparr>body = [], created = 0\<rparr>,
       timers = [], in_flight = []\<rparr>)) = ''Gagal menyalin prompt.'' \<and>
   timers (copyToClipboard example_platform Throws
      \<lparr>ui = initial_state\<lparr>generatedPrompt := JStr ''X''\<rparr>, doc = \<lparr>body = [], created = 0\<rparr>,
       timers = [], in_flight = []\<rparr>) = [] \<and>
   copyMessage (ui (step example_platform (copyToClipboard example_platform Throws
      \<lparr>ui = initial_state\<lparr>generatedPrompt := JStr ''X''\<rparr>, doc = \<lparr>body = [], created = 0\<rparr>,
       timers = [], in_flight = []\<rparr>) (TimerFires 0))) = ''Gagal menyalin prompt.''"
  by (simp add: copyToClipboard_def createElement_def appendChild_def copy_failed_def Let_def)

end
